theory Spec2Isabelle
  imports Complex_Main
begin

section \<open>The Servers.com invoice preparation script (prepare\_data.py)\<close>

text \<open>
  The script reads a CSV export into a list of rows (Python dictionaries from field name
  to text), enriches every row in \<open>process_data\<close> and writes the rows out again. The
  embedding below follows \<open>process_data\<close>, \<open>write_to_csv\<close> and the \<open>try\<close> block of
  \<open>main\<close> statement by statement. Every exception the code can raise is a value of
  \<open>error\<close>; a function that may raise returns \<open>error + 'a\<close>, with \<open>Inl\<close> for the
  exception.
\<close>

subsection \<open>Exceptions\<close>

text \<open>
  The Python exceptions of the script. The specification calls \<open>KeyError\<close> MissingField,
  \<open>ValueError\<close> NumericParseError, \<open>ZeroDivisionError\<close> DivisionError,
  \<open>IndexError\<close> (raised by \<open>prepared_data[0]\<close> on an empty list) EmptyInput and
  \<open>FileNotFoundError\<close> InputNotFound.
\<close>

datatype error =
    FileNotFoundError
  | KeyError string
  | ValueError
  | ZeroDivisionError
  | IndexError

definition and_then :: "error + 'a \<Rightarrow> ('a \<Rightarrow> error + 'b) \<Rightarrow> error + 'b" where
  "and_then r f = (case r of Inl e \<Rightarrow> Inl e | Inr x \<Rightarrow> f x)"

subsection \<open>Dictionaries, lists and strings of Python\<close>

text \<open>
  A Python dictionary keeps its keys in insertion order; the header of the output file
  is the key order of the first prepared row. A dictionary is therefore an association
  list with one entry per key: \<open>d[k] = v\<close> overwrites the entry of \<open>k\<close> where it stands
  or appends a new entry, \<open>d[k]\<close> raises \<open>KeyError\<close> for a missing key.
\<close>

fun dict_set :: "('k \<times> 'v) list \<Rightarrow> 'k \<Rightarrow> 'v \<Rightarrow> ('k \<times> 'v) list" where
  "dict_set [] k v = [(k, v)]"
| "dict_set ((k', v') # kvs) k v =
     (if k' = k then (k, v) # kvs else (k', v') # dict_set kvs k v)"

definition dict_get :: "(string \<times> 'v) list \<Rightarrow> string \<Rightarrow> error + 'v" where
  "dict_get d k = (case map_of d k of None \<Rightarrow> Inl (KeyError k) | Some v \<Rightarrow> Inr v)"

text \<open>\<open>xs[i]\<close> for a non-negative index (the script only uses the literals 0 and 1).\<close>

definition list_index :: "'a list \<Rightarrow> nat \<Rightarrow> error + 'a" where
  "list_index xs i = (if i < length xs then Inr (xs ! i) else Inl IndexError)"

text \<open>
  \<open>s.split(sep)\<close> with a one-character separator: the string is cut at every occurrence
  of the separator, empty pieces are kept, and the result is never the empty list
  (\<open>"".split(" ")\<close> is \<open>[""]\<close>).
\<close>

fun split_on :: "char \<Rightarrow> string \<Rightarrow> string list" where
  "split_on c [] = [[]]"
| "split_on c (x # xs) =
     (if x = c then [] # split_on c xs
      else (case split_on c xs of
              [] \<Rightarrow> [[x]]
            | w # ws \<Rightarrow> (x # w) # ws))"

text \<open>\<open>sep.join(parts)\<close>.\<close>

fun join :: "string \<Rightarrow> string list \<Rightarrow> string" where
  "join sep [] = []"
| "join sep [x] = x"
| "join sep (x # y # ys) = x @ sep @ join sep (y # ys)"

subsection \<open>Dates\<close>

text \<open>
  \<open>issue_date\<close> is a \<open>datetime.datetime\<close>; only its year, month and day are read. The
  standard library keeps every such object inside the calendar (\<open>valid_date\<close>), with
  years from 1 to 9999. \<open>isleap\<close>, \<open>mdays\<close> and the day count of \<open>monthrange\<close> are those
  of the \<open>calendar\<close> module; \<open>monthrange_ndays\<close> is component \<open>[1]\<close> of
  \<open>calendar.monthrange\<close>, the only one the script selects.
\<close>

record date =
  year :: nat
  month :: nat
  day :: nat

definition isleap :: "nat \<Rightarrow> bool" where
  "isleap y = (y mod 4 = 0 \<and> (y mod 100 \<noteq> 0 \<or> y mod 400 = 0))"

definition mdays :: "nat list" where
  "mdays = [0, 31, 28, 31, 30, 31, 30, 31, 31, 30, 31, 30, 31]"

definition monthrange_ndays :: "nat \<Rightarrow> nat \<Rightarrow> error + nat" where
  "monthrange_ndays y m =
     (if 1 \<le> m \<and> m \<le> 12
      then Inr (mdays ! m + (if m = 2 \<and> isleap y then 1 else 0))
      else Inl ValueError)"

definition valid_date :: "date \<Rightarrow> bool" where
  "valid_date dt =
     (1 \<le> year dt \<and> year dt \<le> 9999 \<and> 1 \<le> month dt \<and> month dt \<le> 12 \<and> 1 \<le> day dt \<and>
      day dt \<le> mdays ! month dt + (if month dt = 2 \<and> isleap (year dt) then 1 else 0))"

text \<open>\<open>dt.replace(day=n)\<close> raises \<open>ValueError\<close> when the day is not in the month.\<close>

definition replace_day :: "date \<Rightarrow> nat \<Rightarrow> error + date" where
  "replace_day dt n =
     (if valid_date (dt\<lparr>day := n\<rparr>) then Inr (dt\<lparr>day := n\<rparr>) else Inl ValueError)"

definition digit_char :: "nat \<Rightarrow> char" where
  "digit_char n = ''0123456789'' ! n"

text \<open>A number below 100 with two digits, zero padded, as \<open>%d\<close>, \<open>%m\<close> and \<open>%y\<close> print it.\<close>

definition two_digits :: "nat \<Rightarrow> string" where
  "two_digits n = [digit_char (n div 10 mod 10), digit_char (n mod 10)]"

text \<open>
  \<open>dt.strftime(fmt)\<close> for the directives the script uses: \<open>%d\<close> (day of the month),
  \<open>%m\<close> (month) and \<open>%y\<close> (year without century). Every other character is copied.
\<close>

fun strftime :: "date \<Rightarrow> string \<Rightarrow> string" where
  "strftime dt [] = []"
| "strftime dt [c] = [c]"
| "strftime dt (c # c' # fmt) =
     (if c = CHR ''%'' \<and> c' = CHR ''d'' then two_digits (day dt) @ strftime dt fmt
      else if c = CHR ''%'' \<and> c' = CHR ''m'' then two_digits (month dt) @ strftime dt fmt
      else if c = CHR ''%'' \<and> c' = CHR ''y'' then two_digits (year dt mod 100) @ strftime dt fmt
      else c # strftime dt (c' # fmt))"

subsection \<open>Floating-point numbers\<close>

text \<open>
  The built-in \<open>float(s)\<close> and the division of two floats belong to Python, not to the
  script, so they are parameters of the model: \<open>float_of_str\<close> is the value \<open>float(s)\<close>
  returns, or \<open>None\<close> where it raises \<open>ValueError\<close>; \<open>is_zero b\<close> says that \<open>b == 0.0\<close>,
  which is when \<open>a / b\<close> raises \<open>ZeroDivisionError\<close>; \<open>truediv a b\<close> is the quotient
  otherwise. Every theorem holds for all such parameters.
\<close>

record 'f float_ops =
  float_of_str :: "string \<Rightarrow> 'f option"
  is_zero :: "'f \<Rightarrow> bool"
  truediv :: "'f \<Rightarrow> 'f \<Rightarrow> 'f"

definition py_float :: "'f float_ops \<Rightarrow> string \<Rightarrow> error + 'f" where
  "py_float fo s = (case float_of_str fo s of None \<Rightarrow> Inl ValueError | Some x \<Rightarrow> Inr x)"

definition py_truediv :: "'f float_ops \<Rightarrow> 'f \<Rightarrow> 'f \<Rightarrow> error + 'f" where
  "py_truediv fo a b = (if is_zero fo b then Inl ZeroDivisionError else Inr (truediv fo a b))"

text \<open>
  One instance, to run the model on concrete rows: it reads unsigned decimal integer
  literals such as \<open>50\<close> and divides exactly. On the inputs used below (\<open>50\<close>, \<open>5\<close>, \<open>1\<close>,
  \<open>0\<close>, and text without any digit) Python's \<open>float\<close> and \<open>/\<close> give the same results.
\<close>

definition digit_table :: "(char \<times> nat) list" where
  "digit_table =
     [(CHR ''0'', 0), (CHR ''1'', 1), (CHR ''2'', 2), (CHR ''3'', 3), (CHR ''4'', 4),
      (CHR ''5'', 5), (CHR ''6'', 6), (CHR ''7'', 7), (CHR ''8'', 8), (CHR ''9'', 9)]"

fun read_digits :: "string \<Rightarrow> nat \<Rightarrow> nat option" where
  "read_digits [] n = Some n"
| "read_digits (c # cs) n =
     (case map_of digit_table c of
        None \<Rightarrow> None
      | Some v \<Rightarrow> read_digits cs (10 * n + v))"

definition decimal_ops :: "rat float_ops" where
  "decimal_ops =
     \<lparr> float_of_str = (\<lambda>s. if s = [] then None else map_option of_nat (read_digits s 0)),
       is_zero = (\<lambda>x. x = 0),
       truediv = (\<lambda>a b. a / b) \<rparr>"

subsection \<open>Rows\<close>

text \<open>
  An input row is typed \<open>Dict[str, str]\<close>. A prepared row holds the same texts and, under
  \<open>list_unit_price\<close>, one float.
\<close>

type_synonym row = "(string \<times> string) list"

datatype 'f val = Str string | Flt 'f

type_synonym 'f out_row = "(string \<times> 'f val) list"

subsection \<open>process\_data\<close>

text \<open>
  Lines 22 to 26, the dictionary comprehension: one step per row. The condition is
  evaluated first (\<open>and\<close> does not read the title of a row with a parent), then the key
  and the value; a later row with the same \<open>service_id\<close> overwrites the entry.
\<close>

definition named_resources_step :: "row \<Rightarrow> (string \<rightharpoonup> string) \<Rightarrow> error + (string \<rightharpoonup> string)" where
  "named_resources_step record m =
     and_then (dict_get record ''parent_service_id'') (\<lambda>psid.
       if psid = '''' then
         and_then (dict_get record ''title'') (\<lambda>title.
           if title \<noteq> '''' then
             and_then (dict_get record ''service_id'') (\<lambda>sid.
             and_then (dict_get record ''title'') (\<lambda>title'.
               Inr (m(sid \<mapsto> title'))))
           else Inr m)
       else Inr m)"

fun named_resources_from :: "row list \<Rightarrow> (string \<rightharpoonup> string) \<Rightarrow> error + (string \<rightharpoonup> string)" where
  "named_resources_from [] m = Inr m"
| "named_resources_from (record # items) m =
     and_then (named_resources_step record m) (named_resources_from items)"

definition named_resources :: "row list \<Rightarrow> error + (string \<rightharpoonup> string)" where
  "named_resources items = named_resources_from items Map.empty"

text \<open>Lines 30 to 34: the title of a child row is its parent's, then the first piece is kept.\<close>

definition resolve_title :: "(string \<rightharpoonup> string) \<Rightarrow> row \<Rightarrow> error + row" where
  "resolve_title nr record =
     and_then (dict_get record ''parent_service_id'') (\<lambda>psid.
     let record1 =
           (if psid \<noteq> ''''
            then dict_set record ''title'' (case nr psid of None \<Rightarrow> '''' | Some t \<Rightarrow> t)
            else record)
     in and_then (dict_get record1 ''title'') (\<lambda>title.
        and_then (list_index (split_on CHR '' '' title) 0) (\<lambda>first.
          Inr (dict_set record1 ''title'' first))))"

text \<open>Lines 37 to 42: the billing period and the account.\<close>

definition set_billing :: "date \<Rightarrow> string \<Rightarrow> string \<Rightarrow> row \<Rightarrow> error + row" where
  "set_billing issue_date account_id account_name record =
     (let record1 = dict_set record ''billing_start'' (strftime issue_date ''%d.%m.%y'')
      in and_then (monthrange_ndays (year issue_date) (month issue_date)) (\<lambda>ndays.
         and_then (replace_day issue_date ndays) (\<lambda>end_date.
         let record2 = dict_set record1 ''billing_end'' (strftime end_date ''%d.%m.%y'');
             record3 = dict_set record2 ''billing_account_id'' account_id
         in Inr (dict_set record3 ''billing_account_name'' account_name))))"

text \<open>Lines 43 to 45.\<close>

definition set_description :: "row \<Rightarrow> error + row" where
  "set_description record =
     and_then (dict_get record ''title'') (\<lambda>title.
     and_then (dict_get record ''service_type'') (\<lambda>service_type.
     and_then (dict_get record ''description'') (\<lambda>description.
       Inr (dict_set record ''description'' (join '' '' [title, service_type, description])))))"

text \<open>Lines 46 to 51: the unit is read from the quantity before the quantity is cut.\<close>

definition split_quantity :: "row \<Rightarrow> error + row" where
  "split_quantity record =
     and_then (dict_get record ''quantity'') (\<lambda>quantity.
     and_then (if length (split_on CHR '' '' quantity) > 1
               then list_index (split_on CHR '' '' quantity) 1
               else Inr '''') (\<lambda>usage_unit.
     let record1 = dict_set record ''usage_unit'' usage_unit
     in and_then (dict_get record1 ''quantity'') (\<lambda>quantity'.
        and_then (list_index (split_on CHR '' '' quantity') 0) (\<lambda>first.
          Inr (dict_set record1 ''quantity'' first)))))"

text \<open>
  Line 52: \<open>float(record["subotal"])\<close> is evaluated before \<open>float(record["quantity"])\<close>,
  and both before the division.
\<close>

definition set_list_unit_price :: "'f float_ops \<Rightarrow> row \<Rightarrow> error + 'f out_row" where
  "set_list_unit_price fo record =
     and_then (dict_get record ''subotal'') (\<lambda>subotal.
     and_then (py_float fo subotal) (\<lambda>a.
     and_then (dict_get record ''quantity'') (\<lambda>quantity.
     and_then (py_float fo quantity) (\<lambda>b.
     and_then (py_truediv fo a b) (\<lambda>price.
       Inr (dict_set (map (\<lambda>(k, v). (k, Str v)) record) ''list_unit_price'' (Flt price)))))))"

text \<open>The body of the loop, lines 30 to 52, for one row.\<close>

definition process_record ::
  "'f float_ops \<Rightarrow> (string \<rightharpoonup> string) \<Rightarrow> date \<Rightarrow> string \<Rightarrow> string \<Rightarrow> row \<Rightarrow> error + 'f out_row" where
  "process_record fo nr issue_date account_id account_name record =
     and_then (resolve_title nr record) (\<lambda>record1.
     and_then (set_billing issue_date account_id account_name record1) (\<lambda>record2.
     and_then (set_description record2) (\<lambda>record3.
     and_then (split_quantity record3) (\<lambda>record4.
       set_list_unit_price fo record4))))"

text \<open>The loop of lines 29 to 53; \<open>prepared_data\<close> is the list built so far.\<close>

fun process_loop ::
  "'f float_ops \<Rightarrow> (string \<rightharpoonup> string) \<Rightarrow> date \<Rightarrow> string \<Rightarrow> string \<Rightarrow> row list \<Rightarrow>
   'f out_row list \<Rightarrow> error + 'f out_row list" where
  "process_loop fo nr issue_date account_id account_name [] prepared_data = Inr prepared_data"
| "process_loop fo nr issue_date account_id account_name (record # items) prepared_data =
     and_then (process_record fo nr issue_date account_id account_name record) (\<lambda>record'.
       process_loop fo nr issue_date account_id account_name items (prepared_data @ [record']))"

definition process_data ::
  "'f float_ops \<Rightarrow> row list \<Rightarrow> date \<Rightarrow> string \<Rightarrow> string \<Rightarrow> error + 'f out_row list" where
  "process_data fo items issue_date account_id account_name =
     and_then (named_resources items) (\<lambda>nr.
       process_loop fo nr issue_date account_id account_name items [])"

subsection \<open>write\_to\_csv and main\<close>

text \<open>
  The output file is its header and the rows written so far. \<open>DictWriter.writerows\<close>
  turns each row into the list of its values in header order (an absent key gives the
  empty text) and raises \<open>ValueError\<close> at a row with a key that is not in the header;
  the rows before it are already in the file.
\<close>

record 'f csv_file =
  header :: "string list"
  lines :: "'f val list list"

definition dict_to_list :: "string list \<Rightarrow> 'f out_row \<Rightarrow> error + 'f val list" where
  "dict_to_list fieldnames rowdict =
     (if list_ex (\<lambda>k. k \<notin> set fieldnames) (map fst rowdict) then Inl ValueError
      else Inr (map (\<lambda>k. case map_of rowdict k of None \<Rightarrow> Str '''' | Some v \<Rightarrow> v) fieldnames))"

fun writerows :: "'f csv_file \<Rightarrow> 'f out_row list \<Rightarrow> 'f csv_file \<times> error option" where
  "writerows f [] = (f, None)"
| "writerows f (rowdict # data) =
     (case dict_to_list (header f) rowdict of
        Inl e \<Rightarrow> (f, Some e)
      | Inr values \<Rightarrow> writerows (f\<lparr>lines := lines f @ [values]\<rparr>) data)"

definition write_to_csv :: "string list \<Rightarrow> 'f out_row list \<Rightarrow> 'f csv_file \<times> error option" where
  "write_to_csv fieldnames data = writerows \<lparr>header = fieldnames, lines = []\<rparr> data"

text \<open>
  What a run leaves behind: the output file, \<open>None\<close> when the run never opened it, and
  the line it printed.
\<close>

datatype message = Complete | Error error

record 'f run =
  output_file :: "'f csv_file option"
  printed :: message

text \<open>
  The \<open>try\<close> block of \<open>main\<close>, lines 91 to 114. \<open>input_file\<close> is the list of rows that
  \<open>csv.DictReader\<close> reads from the input path, \<open>None\<close> when the path is not a file;
  the invoice date and the account are the parsed command-line arguments. Every
  exception is caught and printed.
\<close>

definition main ::
  "'f float_ops \<Rightarrow> row list option \<Rightarrow> date \<Rightarrow> string \<Rightarrow> string \<Rightarrow> 'f run" where
  "main fo input_file invoice_date billing_account_id billing_account_name =
     (case input_file of
        None \<Rightarrow> \<lparr>output_file = None, printed = Error FileNotFoundError\<rparr>
      | Some read_items \<Rightarrow>
          (case process_data fo read_items invoice_date billing_account_id billing_account_name of
             Inl e \<Rightarrow> \<lparr>output_file = None, printed = Error e\<rparr>
           | Inr prepared_data \<Rightarrow>
               (case list_index prepared_data 0 of
                  Inl e \<Rightarrow> \<lparr>output_file = None, printed = Error e\<rparr>
                | Inr first \<Rightarrow>
                    (case write_to_csv (map fst first) prepared_data of
                       (f, None) \<Rightarrow> \<lparr>output_file = Some f, printed = Complete\<rparr>
                     | (f, Some e) \<Rightarrow> \<lparr>output_file = Some f, printed = Error e\<rparr>))))"

subsection \<open>Notions of the specification\<close>

text \<open>
  Whitespace-delimited tokens, as the specification words it: the maximal runs of
  characters that are not whitespace (what Python's \<open>s.split()\<close> returns).
\<close>

definition is_whitespace :: "char \<Rightarrow> bool" where
  "is_whitespace c = (c \<in> set [CHR '' '', CHR 0x09, CHR 0x0A, CHR 0x0B, CHR 0x0C, CHR 0x0D])"

fun whitespace_split :: "string \<Rightarrow> string \<Rightarrow> string list" where
  "whitespace_split cur [] = (if cur = [] then [] else [cur])"
| "whitespace_split cur (c # cs) =
     (if is_whitespace c
      then (if cur = [] then whitespace_split [] cs else cur # whitespace_split [] cs)
      else whitespace_split (cur @ [c]) cs)"

definition whitespace_tokens :: "string \<Rightarrow> string list" where
  "whitespace_tokens s = whitespace_split [] s"

definition whitespace_token :: "string \<Rightarrow> nat \<Rightarrow> string" where
  "whitespace_token s i =
     (if i < length (whitespace_tokens s) then whitespace_tokens s ! i else '''')"

text \<open>
  The last calendar day of a month, as the specification words it: 31, 30, or for
  February 29 in a leap year of the Gregorian calendar and 28 otherwise.
\<close>

definition last_day_of_month :: "nat \<Rightarrow> nat \<Rightarrow> nat" where
  "last_day_of_month y m =
     (if m = 2 then (if y mod 400 = 0 \<or> (y mod 4 = 0 \<and> y mod 100 \<noteq> 0) then 29 else 28)
      else if m = 4 \<or> m = 6 \<or> m = 9 \<or> m = 11 then 30
      else 31)"

text \<open>
  A top-level row with a name: its \<open>parent_service_id\<close> is empty and its title is not.
  \<open>named_parents sid items\<close> are the rows of that kind with \<open>service_id\<close> \<open>sid\<close>, in the
  order of the batch.
\<close>

definition is_named_parent :: "row \<Rightarrow> bool" where
  "is_named_parent record =
     (map_of record ''parent_service_id'' = Some '''' \<and>
      map_of record ''title'' \<noteq> None \<and> map_of record ''title'' \<noteq> Some '''')"

definition named_parents :: "string \<Rightarrow> row list \<Rightarrow> row list" where
  "named_parents sid items =
     filter (\<lambda>record. is_named_parent record \<and> map_of record ''service_id'' = Some sid) items"

text \<open>Field \<open>k\<close> of the \<open>i\<close>-th row of a result.\<close>

definition output_field :: "error + 'f out_row list \<Rightarrow> nat \<Rightarrow> string \<Rightarrow> error + 'f val" where
  "output_field res i k =
     and_then res (\<lambda>out. and_then (list_index out i) (\<lambda>record. dict_get record k))"

subsection \<open>Concrete rows\<close>

text \<open>A row with the seven required fields, to run the definitions on.\<close>

definition example_row :: "string \<Rightarrow> string \<Rightarrow> string \<Rightarrow> string \<Rightarrow> string \<Rightarrow> row" where
  "example_row service_id parent_service_id title quantity subotal =
     [(''service_id'', service_id), (''parent_service_id'', parent_service_id),
      (''title'', title), (''service_type'', ''server''), (''description'', ''monthly fee''),
      (''quantity'', quantity), (''subotal'', subotal)]"

section \<open>Basic facts\<close>

lemma and_then_Inr [simp]: "and_then (Inr x) f = f x"
  by (simp add: and_then_def)

lemma and_then_Inl [simp]: "and_then (Inl e) f = Inl e"
  by (simp add: and_then_def)

lemma and_then_eq_Inr: "and_then r f = Inr y \<longleftrightarrow> (\<exists>x. r = Inr x \<and> f x = Inr y)"
  by (cases r) simp_all

lemma map_of_dict_set: "map_of (dict_set d k v) = (map_of d)(k \<mapsto> v)"
  by (induction d) (auto simp: fun_eq_iff)

lemma dict_get_eq_Inr: "dict_get d k = Inr v \<longleftrightarrow> map_of d k = Some v"
  by (simp add: dict_get_def split: option.splits)

lemma split_on_not_Nil: "split_on c s \<noteq> []"
  by (induction s) (auto split: list.splits)

subsection \<open>Splitting and joining\<close>

lemma split_on_no_sep: "c \<notin> set s \<Longrightarrow> split_on c s = [s]"
  by (induction s) auto

lemma split_on_sep:
  "c \<in> set s \<Longrightarrow>
   split_on c s = takeWhile (\<lambda>x. x \<noteq> c) s # split_on c (tl (dropWhile (\<lambda>x. x \<noteq> c) s))"
  by (induction s) auto

lemma split_on_first: "split_on c s ! 0 = takeWhile (\<lambda>x. x \<noteq> c) s"
proof (cases "c \<in> set s")
  case True
  then show ?thesis by (simp add: split_on_sep)
next
  case False
  then have "s = takeWhile (\<lambda>x. x \<noteq> c) s" by (induction s) auto
  with False show ?thesis by (simp add: split_on_no_sep)
qed

lemma split_on_length: "1 < length (split_on c s) \<longleftrightarrow> c \<in> set s"
proof (cases "c \<in> set s")
  case True
  then show ?thesis
    using split_on_not_Nil [of c "tl (dropWhile (\<lambda>x. x \<noteq> c) s)"]
    by (simp add: split_on_sep)
next
  case False
  then show ?thesis by (simp add: split_on_no_sep)
qed

lemma split_on_second:
  "c \<in> set s \<Longrightarrow>
   split_on c s ! 1 = takeWhile (\<lambda>x. x \<noteq> c) (tl (dropWhile (\<lambda>x. x \<noteq> c) s))"
proof -
  assume "c \<in> set s"
  then have "split_on c s ! 1 = split_on c (tl (dropWhile (\<lambda>x. x \<noteq> c) s)) ! 0"
    by (simp add: split_on_sep [of c s])
  then show ?thesis by (simp only: split_on_first)
qed

lemma split_on_pieces: "w \<in> set (split_on c s) \<Longrightarrow> c \<notin> set w"
  by (induction s arbitrary: w) (auto split: if_splits list.splits)

lemma join_Cons: "ws \<noteq> [] \<Longrightarrow> join sep (w # ws) = w @ sep @ join sep ws"
  by (cases ws) simp_all

lemma join_Cons_Cons: "join sep ((a # w) # ws) = a # join sep (w # ws)"
  by (cases ws) simp_all

lemma join_split_on: "join [c] (split_on c s) = s"
  by (induction s) (auto simp: join_Cons join_Cons_Cons split_on_not_Nil split: list.splits)

lemma list_index_split_on_0:
  "list_index (split_on c s) 0 = Inr (takeWhile (\<lambda>x. x \<noteq> c) s)"
  using split_on_not_Nil [of c s] by (simp add: list_index_def split_on_first)

lemma strftime_dmy:
  "strftime dt ''%d.%m.%y'' =
     two_digits (day dt) @ ''.'' @ two_digits (month dt) @ ''.'' @ two_digits (year dt mod 100)"
  by simp

lemma isleap_gregorian: "isleap y \<longleftrightarrow> y mod 400 = 0 \<or> (y mod 4 = 0 \<and> y mod 100 \<noteq> 0)"
proof -
  have "(4::nat) dvd 400" by simp
  then have "400 dvd y \<Longrightarrow> 4 dvd y" by (rule dvd_trans)
  then show ?thesis unfolding isleap_def by (auto simp: mod_eq_0_iff_dvd)
qed

lemma mdays_last_day:
  "1 \<le> m \<Longrightarrow> m \<le> 12 \<Longrightarrow>
   mdays ! m + (if m = 2 \<and> isleap y then 1 else 0) = last_day_of_month y m"
proof -
  assume "1 \<le> m" "m \<le> 12"
  then have "m = 1 \<or> m = 2 \<or> m = 3 \<or> m = 4 \<or> m = 5 \<or> m = 6 \<or> m = 7 \<or> m = 8 \<or> m = 9
    \<or> m = 10 \<or> m = 11 \<or> m = 12"
    by arith
  then show ?thesis
    by (elim disjE) (simp_all add: mdays_def last_day_of_month_def isleap_gregorian)
qed

subsection \<open>The name table\<close>

lemma named_resources_step_Inr:
  assumes "named_resources_step r m = Inr m'"
  shows "(is_named_parent r \<longrightarrow>
            (\<exists>sid t. map_of r ''service_id'' = Some sid \<and> map_of r ''title'' = Some t \<and> m' = m(sid \<mapsto> t))) \<and>
         (\<not> is_named_parent r \<longrightarrow> m' = m)"
  using assms
  by (auto simp: named_resources_step_def is_named_parent_def and_then_eq_Inr dict_get_eq_Inr
      split: if_splits)

lemma named_parents_Cons:
  "named_parents sid (r # items) =
     (if is_named_parent r \<and> map_of r ''service_id'' = Some sid
      then r # named_parents sid items else named_parents sid items)"
  by (simp add: named_parents_def)

lemma named_resources_from_lookup:
  "named_resources_from items m = Inr nr \<Longrightarrow>
   nr sid = (if named_parents sid items = [] then m sid
             else map_of (last (named_parents sid items)) ''title'')"
proof (induction items arbitrary: m)
  case Nil
  then show ?case by (simp add: named_parents_def)
next
  case (Cons r items)
  from Cons.prems obtain m' where step: "named_resources_step r m = Inr m'"
    and rest: "named_resources_from items m' = Inr nr"
    by (auto simp: and_then_eq_Inr)
  note ih = Cons.IH [OF rest]
  note st = named_resources_step_Inr [OF step]
  show ?case
  proof (cases "is_named_parent r \<and> map_of r ''service_id'' = Some sid")
    case True
    with st obtain t where t: "map_of r ''title'' = Some t" "m' = m(sid \<mapsto> t)" by auto
    show ?thesis using True t ih by (simp add: named_parents_Cons)
  next
    case False
    have "m' sid = m sid" using st False by auto
    then show ?thesis using False ih by (auto simp: named_parents_Cons)
  qed
qed

subsection \<open>The stages of the loop body\<close>

lemma resolve_title_Inr:
  assumes "resolve_title nr r = Inr r1"
  obtains psid t where
    "map_of r ''parent_service_id'' = Some psid"
    "if psid = '''' then map_of r ''title'' = Some t
     else t = (case nr psid of None \<Rightarrow> '''' | Some t' \<Rightarrow> t')"
    "map_of r1 = (map_of r)(''title'' \<mapsto> takeWhile (\<lambda>c. c \<noteq> CHR '' '') t)"
proof -
  from assms obtain psid where p: "map_of r ''parent_service_id'' = Some psid"
    by (auto simp: resolve_title_def and_then_eq_Inr dict_get_eq_Inr)
  then have g: "dict_get r ''parent_service_id'' = Inr psid"
    by (simp add: dict_get_eq_Inr)
  show ?thesis
  proof (cases "psid = ''''")
    case True
    with assms g obtain t where t: "map_of r ''title'' = Some t"
      and r1: "r1 = dict_set r ''title'' (takeWhile (\<lambda>c. c \<noteq> CHR '' '') t)"
      by (auto simp: resolve_title_def and_then_eq_Inr dict_get_eq_Inr list_index_split_on_0)
    from r1 have "map_of r1 = (map_of r)(''title'' \<mapsto> takeWhile (\<lambda>c. c \<noteq> CHR '' '') t)"
      by (simp only: map_of_dict_set)
    with p True t show ?thesis by (intro that [of psid t]) simp_all
  next
    case False
    define t where "t = (case nr psid of None \<Rightarrow> '''' | Some t' \<Rightarrow> t')"
    have "dict_get (dict_set r ''title'' t) ''title'' = Inr t"
      by (simp add: dict_get_def map_of_dict_set)
    with assms g False have
      "r1 = dict_set (dict_set r ''title'' t) ''title'' (takeWhile (\<lambda>c. c \<noteq> CHR '' '') t)"
      by (simp add: resolve_title_def list_index_split_on_0 t_def)
    then have "map_of r1 = (map_of r)(''title'' \<mapsto> takeWhile (\<lambda>c. c \<noteq> CHR '' '') t)"
      by (simp add: map_of_dict_set)
    with p False show ?thesis by (intro that [of psid t]) (simp_all add: t_def)
  qed
qed

lemma resolve_title_ok:
  assumes "map_of r ''parent_service_id'' = Some psid"
    and "psid = '''' \<Longrightarrow> map_of r ''title'' \<noteq> None"
  shows "\<exists>r1. resolve_title nr r = Inr r1"
  using assms
  by (auto simp: resolve_title_def dict_get_def Let_def list_index_split_on_0 map_of_dict_set)

lemma last_day_of_month_ge_1: "1 \<le> last_day_of_month y m"
  by (simp add: last_day_of_month_def)

lemma valid_date_last_day:
  assumes "valid_date dt"
  shows "valid_date (dt\<lparr>day := last_day_of_month (year dt) (month dt)\<rparr>)"
  using assms last_day_of_month_ge_1 [of "year dt" "month dt"]
    mdays_last_day [of "month dt" "year dt"]
  by (simp add: valid_date_def)

lemma set_billing_Inr:
  assumes "set_billing d a n r = Inr r2"
  shows "1 \<le> month d \<and> month d \<le> 12 \<and>
    map_of r2 = (map_of r)
      (''billing_start'' \<mapsto> strftime d ''%d.%m.%y'',
       ''billing_end'' \<mapsto>
          strftime (d\<lparr>day := last_day_of_month (year d) (month d)\<rparr>) ''%d.%m.%y'',
       ''billing_account_id'' \<mapsto> a,
       ''billing_account_name'' \<mapsto> n)"
proof -
  from assms obtain ndays end_date where
    nd: "monthrange_ndays (year d) (month d) = Inr ndays" and
    rd: "replace_day d ndays = Inr end_date" and
    r2: "r2 = dict_set (dict_set (dict_set (dict_set r ''billing_start'' (strftime d ''%d.%m.%y''))
           ''billing_end'' (strftime end_date ''%d.%m.%y'')) ''billing_account_id'' a)
           ''billing_account_name'' n"
    unfolding set_billing_def Let_def and_then_eq_Inr by auto
  from nd have m: "1 \<le> month d" "month d \<le> 12"
    by (auto simp: monthrange_ndays_def split: if_splits)
  with nd have "ndays = last_day_of_month (year d) (month d)"
    by (auto simp: monthrange_ndays_def mdays_last_day)
  with rd have "end_date = d\<lparr>day := last_day_of_month (year d) (month d)\<rparr>"
    by (auto simp: replace_day_def split: if_splits)
  with m r2 show ?thesis by (simp only: map_of_dict_set)
qed

lemma set_billing_ok:
  assumes "valid_date d"
  shows "\<exists>r2. set_billing d a n r = Inr r2"
proof -
  from assms have m: "1 \<le> month d" "month d \<le> 12" by (simp_all add: valid_date_def)
  then have nd: "monthrange_ndays (year d) (month d) = Inr (last_day_of_month (year d) (month d))"
    by (simp add: monthrange_ndays_def mdays_last_day)
  have rd: "replace_day d (last_day_of_month (year d) (month d)) =
      Inr (d\<lparr>day := last_day_of_month (year d) (month d)\<rparr>)"
    using valid_date_last_day [OF assms] by (simp add: replace_day_def)
  show ?thesis by (simp add: set_billing_def Let_def nd rd)
qed

lemma set_description_Inr:
  assumes "set_description r = Inr r3"
  obtains t st de where
    "map_of r ''title'' = Some t" "map_of r ''service_type'' = Some st"
    "map_of r ''description'' = Some de"
    "map_of r3 = (map_of r)(''description'' \<mapsto> t @ '' '' @ st @ '' '' @ de)"
  using assms
  by (auto simp: set_description_def and_then_eq_Inr dict_get_eq_Inr map_of_dict_set)

lemma set_description_ok:
  assumes "map_of r ''title'' \<noteq> None" "map_of r ''service_type'' \<noteq> None"
    "map_of r ''description'' \<noteq> None"
  shows "\<exists>r3. set_description r = Inr r3"
  using assms by (auto simp: set_description_def dict_get_def)

lemma split_quantity_Inr:
  assumes "split_quantity r = Inr r4"
  obtains q where
    "map_of r ''quantity'' = Some q"
    "map_of r4 = (map_of r)
       (''usage_unit'' \<mapsto>
          (if 1 < length (split_on CHR '' '' q) then split_on CHR '' '' q ! 1 else ''''),
        ''quantity'' \<mapsto> split_on CHR '' '' q ! 0)"
proof -
  from assms obtain q where q: "map_of r ''quantity'' = Some q"
    by (auto simp: split_quantity_def and_then_eq_Inr dict_get_eq_Inr)
  then have "dict_get r ''quantity'' = Inr q" by (simp add: dict_get_eq_Inr)
  with assms have "r4 = dict_set (dict_set r ''usage_unit''
        (if 1 < length (split_on CHR '' '' q) then split_on CHR '' '' q ! 1 else ''''))
        ''quantity'' (split_on CHR '' '' q ! 0)"
    by (auto simp: split_quantity_def Let_def list_index_def dict_get_def map_of_dict_set q
        split_on_not_Nil)
  then have "map_of r4 = (map_of r)
       (''usage_unit'' \<mapsto>
          (if 1 < length (split_on CHR '' '' q) then split_on CHR '' '' q ! 1 else ''''),
        ''quantity'' \<mapsto> split_on CHR '' '' q ! 0)"
    by (simp only: map_of_dict_set)
  with q show ?thesis by (rule that)
qed

lemma split_quantity_ok:
  assumes "map_of r ''quantity'' \<noteq> None"
  shows "\<exists>r4. split_quantity r = Inr r4"
  using assms
  by (auto simp: split_quantity_def dict_get_def Let_def list_index_def map_of_dict_set
      split_on_not_Nil)

lemma set_list_unit_price_Inr:
  assumes "set_list_unit_price fo r = Inr out"
  obtains sub q x y where
    "map_of r ''subotal'' = Some sub" "map_of r ''quantity'' = Some q"
    "float_of_str fo sub = Some x" "float_of_str fo q = Some y" "\<not> is_zero fo y"
    "map_of out = (map_option Str \<circ> map_of r)(''list_unit_price'' \<mapsto> Flt (truediv fo x y))"
  using assms
  by (auto simp: set_list_unit_price_def and_then_eq_Inr dict_get_eq_Inr py_float_def
      py_truediv_def map_of_dict_set map_of_map split: option.splits if_splits)

lemma set_list_unit_price_eval:
  assumes "map_of r ''subotal'' = Some sub" "map_of r ''quantity'' = Some q"
  shows "set_list_unit_price fo r =
     (case float_of_str fo sub of
        None \<Rightarrow> Inl ValueError
      | Some x \<Rightarrow>
          (case float_of_str fo q of
             None \<Rightarrow> Inl ValueError
           | Some y \<Rightarrow>
               if is_zero fo y then Inl ZeroDivisionError
               else Inr (dict_set (map (\<lambda>(k, v). (k, Str v)) r) ''list_unit_price''
                          (Flt (truediv fo x y)))))"
  using assms
  by (simp add: set_list_unit_price_def dict_get_def py_float_def py_truediv_def
      split: option.splits)

subsection \<open>One row, the loop and the run\<close>

lemma process_record_Inr:
  assumes "process_record fo nr d a n r = Inr out"
  obtains psid t st de q sub x y where
    "map_of r ''parent_service_id'' = Some psid"
    "if psid = '''' then map_of r ''title'' = Some t
     else t = (case nr psid of None \<Rightarrow> '''' | Some t' \<Rightarrow> t')"
    "map_of r ''service_type'' = Some st"
    "map_of r ''description'' = Some de"
    "map_of r ''quantity'' = Some q"
    "map_of r ''subotal'' = Some sub"
    "float_of_str fo sub = Some x"
    "float_of_str fo (split_on CHR '' '' q ! 0) = Some y"
    "\<not> is_zero fo y"
    "map_of out = (map_option Str \<circ> map_of r)
       (''title'' \<mapsto> Str (takeWhile (\<lambda>c. c \<noteq> CHR '' '') t),
        ''billing_start'' \<mapsto> Str (strftime d ''%d.%m.%y''),
        ''billing_end'' \<mapsto>
           Str (strftime (d\<lparr>day := last_day_of_month (year d) (month d)\<rparr>) ''%d.%m.%y''),
        ''billing_account_id'' \<mapsto> Str a,
        ''billing_account_name'' \<mapsto> Str n,
        ''description'' \<mapsto>
           Str (takeWhile (\<lambda>c. c \<noteq> CHR '' '') t @ '' '' @ st @ '' '' @ de),
        ''usage_unit'' \<mapsto>
           Str (if 1 < length (split_on CHR '' '' q) then split_on CHR '' '' q ! 1 else ''''),
        ''quantity'' \<mapsto> Str (split_on CHR '' '' q ! 0),
        ''list_unit_price'' \<mapsto> Flt (truediv fo x y))"
proof -
  from assms obtain r1 r2 r3 r4 where
    s1: "resolve_title nr r = Inr r1" and
    s2: "set_billing d a n r1 = Inr r2" and
    s3: "set_description r2 = Inr r3" and
    s4: "split_quantity r3 = Inr r4" and
    s5: "set_list_unit_price fo r4 = Inr out"
    unfolding process_record_def and_then_eq_Inr by blast
  from s1 obtain psid t where
    p: "map_of r ''parent_service_id'' = Some psid" and
    t: "if psid = '''' then map_of r ''title'' = Some t
        else t = (case nr psid of None \<Rightarrow> '''' | Some t' \<Rightarrow> t')" and
    m1: "map_of r1 = (map_of r)(''title'' \<mapsto> takeWhile (\<lambda>c. c \<noteq> CHR '' '') t)"
    by (rule resolve_title_Inr)
  note m2 = set_billing_Inr [OF s2, THEN conjunct2, THEN conjunct2]
  from s3 obtain t' st de where
    d1: "map_of r2 ''title'' = Some t'" and
    d2: "map_of r2 ''service_type'' = Some st" and
    d3: "map_of r2 ''description'' = Some de" and
    m3: "map_of r3 = (map_of r2)(''description'' \<mapsto> t' @ '' '' @ st @ '' '' @ de)"
    by (rule set_description_Inr)
  from d1 have t': "t' = takeWhile (\<lambda>c. c \<noteq> CHR '' '') t" by (simp add: m2 m1)
  from d2 have st: "map_of r ''service_type'' = Some st" by (simp add: m2 m1)
  from d3 have de: "map_of r ''description'' = Some de" by (simp add: m2 m1)
  from s4 obtain q where
    q3: "map_of r3 ''quantity'' = Some q" and
    m4: "map_of r4 = (map_of r3)
       (''usage_unit'' \<mapsto>
          (if 1 < length (split_on CHR '' '' q) then split_on CHR '' '' q ! 1 else ''''),
        ''quantity'' \<mapsto> split_on CHR '' '' q ! 0)"
    by (rule split_quantity_Inr)
  from q3 have q: "map_of r ''quantity'' = Some q" by (simp add: m3 m2 m1)
  from s5 obtain sub q' x y where
    e1: "map_of r4 ''subotal'' = Some sub" and
    e2: "map_of r4 ''quantity'' = Some q'" and
    x: "float_of_str fo sub = Some x" and
    y: "float_of_str fo q' = Some y" and
    nz: "\<not> is_zero fo y" and
    m5: "map_of out = (map_option Str \<circ> map_of r4)(''list_unit_price'' \<mapsto> Flt (truediv fo x y))"
    by (rule set_list_unit_price_Inr)
  from e1 have sub: "map_of r ''subotal'' = Some sub" by (simp add: m4 m3 m2 m1)
  from e2 have q': "q' = split_on CHR '' '' q ! 0" by (simp add: m4)
  have "map_of out = (map_option Str \<circ> map_of r)
       (''title'' \<mapsto> Str (takeWhile (\<lambda>c. c \<noteq> CHR '' '') t),
        ''billing_start'' \<mapsto> Str (strftime d ''%d.%m.%y''),
        ''billing_end'' \<mapsto>
           Str (strftime (d\<lparr>day := last_day_of_month (year d) (month d)\<rparr>) ''%d.%m.%y''),
        ''billing_account_id'' \<mapsto> Str a,
        ''billing_account_name'' \<mapsto> Str n,
        ''description'' \<mapsto>
           Str (takeWhile (\<lambda>c. c \<noteq> CHR '' '') t @ '' '' @ st @ '' '' @ de),
        ''usage_unit'' \<mapsto>
           Str (if 1 < length (split_on CHR '' '' q) then split_on CHR '' '' q ! 1 else ''''),
        ''quantity'' \<mapsto> Str (split_on CHR '' '' q ! 0),
        ''list_unit_price'' \<mapsto> Flt (truediv fo x y))"
    unfolding m5 m4 m3 m2 m1 t' by (simp only: map_option_o_map_upd)
  with p t st de q sub x y [unfolded q'] nz show ?thesis by (rule that)
qed

lemma process_loop_Inr:
  "process_loop fo nr d a n items acc = Inr out \<longleftrightarrow>
   (\<exists>outs. out = acc @ outs \<and>
      list_all2 (\<lambda>r r'. process_record fo nr d a n r = Inr r') items outs)"
proof (induction items arbitrary: acc out)
  case Nil
  then show ?case by auto
next
  case (Cons r items)
  show ?case
  proof (cases "process_record fo nr d a n r")
    case (Inl e)
    then show ?thesis by (simp add: list_all2_Cons1)
  next
    case (Inr r')
    then show ?thesis by (auto simp: Cons.IH list_all2_Cons1)
  qed
qed

lemma process_loop_append:
  "process_loop fo nr d a n (xs @ ys) acc =
     and_then (process_loop fo nr d a n xs acc) (process_loop fo nr d a n ys)"
proof (induction xs arbitrary: acc)
  case Nil
  then show ?case by simp
next
  case (Cons r xs)
  then show ?case by (cases "process_record fo nr d a n r") simp_all
qed

lemma process_data_Inr:
  "process_data fo items d a n = Inr out \<longleftrightarrow>
   (\<exists>nr. named_resources items = Inr nr \<and>
      list_all2 (\<lambda>r r'. process_record fo nr d a n r = Inr r') items out)"
  by (simp add: process_data_def and_then_eq_Inr process_loop_Inr)

lemma process_data_first_error:
  assumes "named_resources (pre @ r # post) = Inr nr"
    and "process_loop fo nr d a n pre [] = Inr done"
    and "process_record fo nr d a n r = Inl e"
  shows "process_data fo (pre @ r # post) d a n = Inl e"
  using assms by (simp add: process_data_def process_loop_append)

lemma process_data_fails:
  assumes "r \<in> set items"
    and "\<And>nr r'. process_record fo nr d a n r \<noteq> Inr r'"
  shows "\<exists>e. process_data fo items d a n = Inl e"
proof (cases "process_data fo items d a n")
  case (Inl e)
  then show ?thesis by blast
next
  case (Inr out)
  then obtain nr where
    "list_all2 (\<lambda>r r'. process_record fo nr d a n r = Inr r') items out"
    by (auto simp: process_data_Inr)
  with assms(1) obtain r' where "process_record fo nr d a n r = Inr r'"
    by (auto simp: list_all2_conv_all_nth in_set_conv_nth)
  with assms(2) show ?thesis by blast
qed

lemma main_error:
  "process_data fo items d a n = Inl e \<Longrightarrow>
   main fo (Some items) d a n = \<lparr>output_file = None, printed = Error e\<rparr>"
  by (simp add: main_def)

lemmas run_defs =
  process_data_def named_resources_def named_resources_step_def process_record_def
  resolve_title_def set_billing_def set_description_def split_quantity_def
  set_list_unit_price_def dict_get_def list_index_def py_float_def py_truediv_def
  monthrange_ndays_def replace_day_def valid_date_def mdays_def isleap_def two_digits_def
  digit_char_def decimal_ops_def digit_table_def example_row_def output_field_def Let_def

section \<open>The claims\<close>

subsection \<open>The name table\<close>

text \<open>
  Claim C9. The name table of a batch maps \<open>sid\<close> to a title exactly when some row
  with an empty \<open>parent_service_id\<close> and a non-empty title has \<open>service_id\<close> \<open>sid\<close>, and
  the title is that of the last such row of the batch.
\<close>

theorem named_resources_table:
  assumes "named_resources items = Inr nr"
  shows "nr sid =
     (if named_parents sid items = [] then None
      else map_of (last (named_parents sid items)) ''title'')"
  using named_resources_from_lookup [of items Map.empty nr sid] assms
  by (simp add: named_resources_def)

theorem named_resources_table_witness:
  "(case named_resources
           [example_row ''s1'' '''' ''Alpha one'' ''1'' ''1'',
            example_row ''s1'' '''' ''Beta two'' ''1'' ''1'',
            example_row ''s2'' '''' '''' ''1'' ''1'',
            example_row ''s3'' ''s1'' ''Gamma three'' ''1'' ''1'']
    of Inl e \<Rightarrow> [] | Inr nr \<Rightarrow> [nr ''s1'', nr ''s2'', nr ''s3''])
   = [Some ''Beta two'', None, None]"
proof -
  let ?items = "[example_row ''s1'' '''' ''Alpha one'' ''1'' ''1'',
            example_row ''s1'' '''' ''Beta two'' ''1'' ''1'',
            example_row ''s2'' '''' '''' ''1'' ''1'',
            example_row ''s3'' ''s1'' ''Gamma three'' ''1'' ''1'']"
  obtain nr where nr: "named_resources ?items = Inr nr"
    by (simp add: named_resources_def named_resources_step_def dict_get_def example_row_def)
  have "nr ''s1'' = Some ''Beta two''" "nr ''s2'' = None" "nr ''s3'' = None"
    using named_resources_table [OF nr, of "''s1''"] named_resources_table [OF nr, of "''s2''"]
      named_resources_table [OF nr, of "''s3''"]
    by (simp_all add: named_parents_def is_named_parent_def example_row_def)
  then show ?thesis by (simp add: nr)
qed

subsection \<open>Empty input\<close>

text \<open>
  Claim C8. A run on an input file with no rows prints an error and leaves no output
  file: \<open>process_data\<close> returns the empty list, and \<open>prepared_data[0]\<close>, which
  would give the field names, raises \<open>IndexError\<close> before the output is opened.
\<close>

theorem empty_input_fails:
  "main fo (Some []) invoice_date billing_account_id billing_account_name =
     \<lparr>output_file = None, printed = Error IndexError\<rparr>"
  by (simp add: main_def process_data_def named_resources_def list_index_def)

end
